theory Spec2Isabelle
  imports Complex_Main "HOL-Library.Sublist"
begin

section \<open>The focus hook (useFocusDetection.js)\<close>

text \<open>
  The hook keeps one piece of React state, \<^verbatim>\<open>focusData\<close>, and two refs,
  \<^verbatim>\<open>lastFocusTime\<close> and \<^verbatim>\<open>lastFaceTime\<close>. Times are the integers that
  \<^verbatim>\<open>Date.now()\<close> returns (milliseconds), so durations are differences of integers.
\<close>

record focus_data =
  faceDetected :: bool
  lookingAtScreen :: bool
  focusScore :: int
  focusLostDuration :: int
  noFaceDuration :: int
  multipleFaces :: bool
  eyeClosure :: bool

text \<open>The argument of \<^verbatim>\<open>useState\<close> (lines 4-12).\<close>

definition initialFocusData :: focus_data where
  "initialFocusData =
     \<lparr>faceDetected = False, lookingAtScreen = False, focusScore = 0,
      focusLostDuration = 0, noFaceDuration = 0, multipleFaces = False,
      eyeClosure = False\<rparr>"

record focus_refs =
  lastFocusTime :: int
  lastFaceTime :: int

text \<open>
  \<^verbatim>\<open>calculateFocusScore\<close> (lines 142-151): the score starts at 100, each \<^verbatim>\<open>if\<close>
  subtracts its penalty from the running value, and the result is \<^verbatim>\<open>Math.max(0, score)\<close>.
\<close>

definition calculateFocusScore :: "focus_data \<Rightarrow> int" where
  "calculateFocusScore d =
     (let score = 100;
          score = (if \<not> faceDetected d then score - 50 else score);
          score = (if \<not> lookingAtScreen d then score - 20 else score);
          score = (if multipleFaces d then score - 30 else score);
          score = (if eyeClosure d then score - 15 else score);
          score = (if focusLostDuration d > 5000 then score - 20 else score);
          score = (if noFaceDuration d > 10000 then score - 40 else score)
      in max 0 score)"

text \<open>
  \<^verbatim>\<open>onFaceResults\<close> (lines 38-75). Its inputs besides \<^verbatim>\<open>results\<close> are made explicit:
  \<^item> \<open>calculateGaze\<close>: the gaze estimator of lines 113-141, floating-point arithmetic on
    the first face's landmarks, returning \<^verbatim>\<open>{lookingAtScreen, eyeClosure}\<close>; it is a
    parameter, so everything proved holds for whatever it returns;
  \<^item> \<open>canvas\<close>, \<open>video\<close>: whether \<^verbatim>\<open>canvasRef.current\<close> and \<^verbatim>\<open>videoRef.current\<close> are
    set; when one is missing the handler returns before touching anything (\<open>None\<close>);
  \<^item> \<open>focusData\<close>: the \<^verbatim>\<open>focusData\<close> object in scope of the handler's closure, which
    \<^verbatim>\<open>{ ...focusData }\<close> copies;
  \<^item> \<open>r\<close>: the two refs; \<open>currentTime\<close>: the value of \<^verbatim>\<open>Date.now()\<close>;
  \<^item> \<open>multiFaceLandmarks\<close>: \<^verbatim>\<open>results.multiFaceLandmarks\<close>, \<open>None\<close> when the field is
    absent, else one landmark set per face.
  The result is the object handed to \<^verbatim>\<open>setFocusData\<close> and the refs as the handler
  leaves them. Drawing on the canvas has no effect on either and is left out; a landmark
  set is taken to be complete, as the face mesh delivers it, so that the fixed indices
  read by the drawing and by the gaze estimator exist.
\<close>

definition onFaceResults ::
  "('l \<Rightarrow> bool \<times> bool) \<Rightarrow> bool \<Rightarrow> bool \<Rightarrow> focus_data \<Rightarrow> focus_refs \<Rightarrow> int \<Rightarrow>
   'l list option \<Rightarrow> (focus_data \<times> focus_refs) option" where
  "onFaceResults calculateGaze canvas video focusData r currentTime multiFaceLandmarks =
     (if canvas \<and> video then
        (let newFocusData = focusData;
             (newFocusData, r) =
               (case multiFaceLandmarks of
                  Some (landmarks # others) \<Rightarrow>
                    (let newFocusData = newFocusData
                           \<lparr>faceDetected := True,
                            multipleFaces := (length (landmarks # others) > 1),
                            noFaceDuration := 0\<rparr>;
                         r = r\<lparr>lastFaceTime := currentTime\<rparr>;
                         (looking, closure) = calculateGaze landmarks;
                         newFocusData = newFocusData
                           \<lparr>lookingAtScreen := looking, eyeClosure := closure\<rparr>
                     in if looking
                        then (newFocusData\<lparr>focusLostDuration := 0\<rparr>,
                              r\<lparr>lastFocusTime := currentTime\<rparr>)
                        else (newFocusData
                                \<lparr>focusLostDuration := currentTime - lastFocusTime r\<rparr>, r))
                | _ \<Rightarrow>
                    (newFocusData
                       \<lparr>faceDetected := False,
                        lookingAtScreen := False,
                        noFaceDuration := currentTime - lastFaceTime r,
                        focusLostDuration := currentTime - lastFocusTime r\<rparr>, r))
         in Some (newFocusData\<lparr>focusScore := calculateFocusScore newFocusData\<rparr>, r))
      else None)"

text \<open>The number of faces in a landmark result; an absent field counts as none.\<close>

definition faceCount :: "'l list option \<Rightarrow> nat" where
  "faceCount multiFaceLandmarks =
     (case multiFaceLandmarks of None \<Rightarrow> 0 | Some faces \<Rightarrow> length faces)"

text \<open>
  One delivered frame. The hook's state is the \<^verbatim>\<open>focusData\<close> state cell and the two
  refs. \<open>deliver\<close> runs the handler on a frame and stores what it emits; it is stated for
  any record the handler may copy, which the frame carries as \<open>captured\<close>.
\<close>

record 'l frame =
  canvasSet :: bool
  videoSet :: bool
  captured :: focus_data
  frameTime :: int
  faces :: "'l list option"

record hook =
  focusState :: focus_data
  refs :: focus_refs

definition mountHook :: "int \<Rightarrow> int \<Rightarrow> hook" where
  \<comment> \<open>\<^verbatim>\<open>useRef(Date.now())\<close> twice, lines 14 and 16\<close>
  "mountHook t1 t2 =
     \<lparr>focusState = initialFocusData,
      refs = \<lparr>lastFocusTime = t1, lastFaceTime = t2\<rparr>\<rparr>"

definition deliver :: "('l \<Rightarrow> bool \<times> bool) \<Rightarrow> hook \<Rightarrow> 'l frame \<Rightarrow> hook" where
  "deliver calculateGaze h f =
     (case onFaceResults calculateGaze (canvasSet f) (videoSet f) (captured f) (refs h)
             (frameTime f) (faces f) of
        None \<Rightarrow> h
      | Some (d, r) \<Rightarrow> \<lparr>focusState = d, refs = r\<rparr>)"

text \<open>
  The callback that the face mesh holds. \<^verbatim>\<open>faceMesh.onResults(onFaceResults)\<close> is called
  once, in the mount effect (lines 17-37, dependency list \<^verbatim>\<open>[]\<close>), and nowhere else: the
  registered function is the \<^verbatim>\<open>onFaceResults\<close> of the first render, and the closures that
  later renders create are never registered. The \<^verbatim>\<open>focusData\<close> in scope of the first
  render is the initial record, so that is what \<^verbatim>\<open>{ ...focusData }\<close> copies on every
  frame, whatever the state cell holds by then.
\<close>

definition onResults :: "('l \<Rightarrow> bool \<times> bool) \<Rightarrow> hook \<Rightarrow> 'l frame \<Rightarrow> hook" where
  "onResults calculateGaze h f = deliver calculateGaze h (f\<lparr>captured := initialFocusData\<rparr>)"

section \<open>The session controller (Dashboard.jsx)\<close>

subsection \<open>Events, detections and the session report\<close>

text \<open>
  The strings that the component uses as event types and severities. \<open>EYE_CLOSURE\<close> occurs
  only in the filter of line 99.
\<close>

datatype event_type = FOCUS_LOST | NO_FACE | MULTIPLE_FACES | EYE_CLOSURE | SUSPICIOUS_OBJECT

datatype severity = warning | danger

text \<open>
  One entry of \<^verbatim>\<open>objectData.detectedObjects\<close>: \<^verbatim>\<open>obj.class\<close> and \<^verbatim>\<open>obj.confidence\<close>.
  The confidence is a double; every double is a rational, and the field holds that
  rational.
\<close>

record detection =
  className :: string
  confidence :: rat

datatype payload = FocusPayload focus_data | ObjectPayload detection

text \<open>The object passed to \<^verbatim>\<open>addEvent\<close>, and the stamped copy that enters the log.\<close>

record candidate =
  etype :: event_type
  level :: severity
  message :: string
  payload :: payload

record event = candidate +
  timestamp :: int
  sessionTime :: "int option"

record focus_summary =
  focusLostCount :: nat
  noFaceCount :: nat
  multipleFacesCount :: nat
  eyeClosureCount :: nat

record object_summary =
  totalDetections :: nat
  items :: "string list"

text \<open>\<^verbatim>\<open>sessionData\<close> of lines 88-105; \<open>_sd\<close> marks the fields whose names the
  component state has too.\<close>

record session_data =
  sessionId_sd :: "string option"
  candidateName_sd :: string
  startTime :: int
  endTime :: int
  duration :: rat
  events_sd :: "event list"
  focusSummary :: focus_summary
  objectSummary :: object_summary

text \<open>The calls the component makes to its collaborators, in the order it makes them.\<close>

datatype effect =
    Alert string
  | ConsoleError string
  | StartCamera
  | StartRecording
  | CreateSession string int
  | SetInterval nat int
  | ClearInterval "nat option"
  | StopRecording
  | StopCamera
  | LogEvent string event
  | EndSession "string option" session_data
  | SessionComplete session_data

subsection \<open>Component state\<close>

text \<open>
  The six \<^verbatim>\<open>useState\<close> cells and three refs of lines 11-18 and 119.
  \<open>lastEventTimeRef\<close> is the object of line 119, keyed by event type.
\<close>

record dashboard =
  isSessionActive :: bool
  candidateName :: string
  sessionId :: "string option"
  sessionStartTime :: "int option"
  events :: "event list"
  sessionTimer :: int
  intervalRef :: "nat option"
  timerIntervalRef :: "nat option"
  lastEventTimeRef :: "event_type \<rightharpoonup> int"

definition mountDashboard :: dashboard where
  "mountDashboard =
     \<lparr>isSessionActive = False, candidateName = [], sessionId = None,
      sessionStartTime = None, events = [], sessionTimer = 0, intervalRef = None,
      timerIntervalRef = None, lastEventTimeRef = Map.empty\<rparr>"

subsection \<open>Strings\<close>

text \<open>
  \<^verbatim>\<open>String.prototype.trim\<close> removes white space and line terminators from both ends.
  A \<open>char\<close> is a code unit below 256, so of JavaScript's white space the model has
  tab, line feed, vertical tab, form feed, carriage return, space and no-break space.
\<close>

definition isWhiteSpace :: "char \<Rightarrow> bool" where
  "isWhiteSpace c = (of_char c \<in> {9, 10, 11, 12, 13, 32, 160 :: nat})"

definition trim :: "string \<Rightarrow> string" where
  "trim s = rev (dropWhile isWhiteSpace (rev (dropWhile isWhiteSpace s)))"

text \<open>Decimal digits of a number, as a template literal prints an integer.\<close>

definition digit :: "nat \<Rightarrow> char" where
  "digit n = ''0123456789'' ! n"

fun showNat :: "nat \<Rightarrow> string" where
  "showNat n =
     (if n < 10 then [digit n] else showNat (n div 10) @ [digit (n mod 10)])"

declare showNat.simps [simp del]

definition showInt :: "int \<Rightarrow> string" where
  "showInt i = (if i < 0 then CHR ''-'' # showNat (nat (- i)) else showNat (nat i))"

text \<open>\<^verbatim>\<open>Math.round\<close> rounds to the nearest integer, halves upwards.\<close>

definition roundMs :: "int \<Rightarrow> int" where
  \<comment> \<open>\<^verbatim>\<open>Math.round(ms / 1000)\<close>\<close>
  "roundMs ms = (ms + 500) div 1000"

text \<open>
  Double-precision arithmetic, for \<^verbatim>\<open>obj.confidence * 100\<close>. The product of two doubles is
  the exact product rounded to the nearest number with a significand of 53 bits, ties to
  the even significand. The range of the exponent is not bounded: a confidence lies
  between 0 and 1, so the product does not overflow, and a product too small for a normal
  double rounds to the percentage 0 with or without the bound.
\<close>

function bitLength :: "int \<Rightarrow> int" where
  "bitLength a = (if a \<le> 0 then 0 else 1 + bitLength (a div 2))"
  by auto
termination
  by (relation "measure nat") auto

declare bitLength.simps [simp del]

definition pow2 :: "int \<Rightarrow> rat" where
  "pow2 e = (if 0 \<le> e then 2 ^ nat e else 1 / 2 ^ nat (- e))"

definition log2floor :: "rat \<Rightarrow> int" where
  \<comment> \<open>for positive \<open>x\<close>, the \<open>k\<close> with \<open>pow2 k \<le> x < pow2 (k + 1)\<close>\<close>
  "log2floor x =
     (let (a, b) = quotient_of x;
          k = bitLength a - bitLength b
      in if pow2 k \<le> x then k else k - 1)"

definition roundHalfEven :: "rat \<Rightarrow> int" where
  "roundHalfEven x =
     (let n = \<lfloor>x\<rfloor>; r = x - of_int n
      in if r < 1 / 2 then n else if 1 / 2 < r then n + 1
         else if even n then n else n + 1)"

definition toDouble :: "rat \<Rightarrow> rat" where
  "toDouble x =
     (if x = 0 then 0
      else (let e = log2floor \<bar>x\<bar> - 52
            in sgn x * of_int (roundHalfEven (\<bar>x\<bar> / pow2 e)) * pow2 e))"

definition roundPercent :: "rat \<Rightarrow> int" where
  \<comment> \<open>\<^verbatim>\<open>Math.round(confidence * 100)\<close>: the product as a double, then rounded\<close>
  "roundPercent c = \<lfloor>toDouble (toDouble c * 100) + 1 / 2\<rfloor>"

subsection \<open>startSession (lines 41-76)\<close>

text \<open>
  What the collaborators answer during one call: whether \<^verbatim>\<open>startCamera()\<close> and
  \<^verbatim>\<open>startRecording()\<close> resolve (\<open>False\<close>: they throw), the id of the session that
  \<^verbatim>\<open>apiService.createSession\<close> resolves to (\<open>None\<close>: it throws), the two readings of the
  clock, and the handles that the two \<^verbatim>\<open>setInterval\<close> calls return.
\<close>

record start_env =
  cameraStarts :: bool
  recordingStarts :: bool
  created :: "string option"
  requestTime :: int
  startedAt :: int
  detectionHandle :: nat
  timerHandle :: nat

definition startFailed :: "effect list" where
  \<comment> \<open>the \<^verbatim>\<open>catch\<close> block, lines 72-75\<close>
  "startFailed =
     [ConsoleError ''Error starting session:'',
      Alert ''Failed to start session. Check console for errors.'']"

definition startSession :: "start_env \<Rightarrow> dashboard \<Rightarrow> dashboard \<times> effect list" where
  "startSession env s =
     (if trim (candidateName s) = [] then (s, [Alert ''Please enter candidate name''])
      else if \<not> cameraStarts env then (s, StartCamera # startFailed)
      else if \<not> recordingStarts env then (s, StartCamera # StartRecording # startFailed)
      else
        (case created env of
           None \<Rightarrow>
             (s, StartCamera # StartRecording #
                 CreateSession (trim (candidateName s)) (requestTime env) # startFailed)
         | Some sid \<Rightarrow>
             (s\<lparr>sessionId := Some sid,
                sessionStartTime := Some (startedAt env),
                isSessionActive := True,
                events := [],
                sessionTimer := 0,
                intervalRef := Some (detectionHandle env),
                timerIntervalRef := Some (timerHandle env)\<rparr>,
              [StartCamera, StartRecording,
               CreateSession (trim (candidateName s)) (requestTime env),
               SetInterval (detectionHandle env) 1000,
               SetInterval (timerHandle env) 1000])))"

subsection \<open>endSession (lines 78-116)\<close>

text \<open>\<^verbatim>\<open>[...new Set(xs)]\<close>: the elements in the order of their first occurrence.\<close>

definition setAdd :: "'a list \<Rightarrow> 'a \<Rightarrow> 'a list" where
  "setAdd acc x = (if x \<in> set acc then acc else acc @ [x])"

definition newSet :: "'a list \<Rightarrow> 'a list" where
  "newSet xs = foldl setAdd [] xs"

text \<open>\<^verbatim>\<open>e.data?.class\<close>: only a detection has the field.\<close>

definition dataClass :: "event \<Rightarrow> string option" where
  "dataClass e =
     (case payload e of FocusPayload d \<Rightarrow> None | ObjectPayload obj \<Rightarrow> Some (className obj))"

text \<open>\<^verbatim>\<open>.filter(Boolean)\<close> keeps the defined, non-empty names.\<close>

fun truthy :: "string option list \<Rightarrow> string list" where
  "truthy [] = []"
| "truthy (None # cs) = truthy cs"
| "truthy (Some c # cs) = (if c = [] then truthy cs else c # truthy cs)"

definition ofType :: "event_type \<Rightarrow> event list \<Rightarrow> event list" where
  \<comment> \<open>\<^verbatim>\<open>events.filter(e => e.type === ty)\<close>\<close>
  "ofType ty evs = filter (\<lambda>e. etype e = ty) evs"

definition buildSessionData :: "int \<Rightarrow> int \<Rightarrow> dashboard \<Rightarrow> session_data" where
  "buildSessionData sessionEndTime start s =
     \<lparr>sessionId_sd = sessionId s,
      candidateName_sd = candidateName s,
      startTime = start,
      endTime = sessionEndTime,
      duration = of_int (sessionEndTime - start) / 1000,
      events_sd = events s,
      focusSummary =
        \<lparr>focusLostCount = length (ofType FOCUS_LOST (events s)),
         noFaceCount = length (ofType NO_FACE (events s)),
         multipleFacesCount = length (ofType MULTIPLE_FACES (events s)),
         eyeClosureCount = length (ofType EYE_CLOSURE (events s))\<rparr>,
      objectSummary =
        \<lparr>totalDetections = length (ofType SUSPICIOUS_OBJECT (events s)),
         items = newSet (truthy (map dataClass (ofType SUSPICIOUS_OBJECT (events s))))\<rparr>\<rparr>"

text \<open>
  What the collaborators answer during one call of \<^verbatim>\<open>endSession\<close>: whether
  \<^verbatim>\<open>stopRecording()\<close>, \<^verbatim>\<open>stopCamera()\<close>, \<^verbatim>\<open>apiService.endSession\<close> and
  \<^verbatim>\<open>onSessionComplete\<close> return (\<open>False\<close>: they throw), and the reading of the clock.
  \<^verbatim>\<open>sessionStartTime.getTime()\<close> throws when no session was started.
\<close>

record end_env =
  recordingStops :: bool
  cameraStops :: bool
  endedAt :: int
  persisted :: bool
  reported :: bool

definition endFailed :: "effect list" where
  "endFailed = [ConsoleError ''Error ending session:'']"

definition endSession :: "end_env \<Rightarrow> dashboard \<Rightarrow> dashboard \<times> effect list" where
  "endSession env s =
     (let cleared = [ClearInterval (intervalRef s), ClearInterval (timerIntervalRef s)]
      in if \<not> recordingStops env then (s, cleared @ StopRecording # endFailed)
         else if \<not> cameraStops env then (s, cleared @ StopRecording # StopCamera # endFailed)
         else
           (case sessionStartTime s of
              None \<Rightarrow> (s, cleared @ StopRecording # StopCamera # endFailed)
            | Some start \<Rightarrow>
                (let sessionData = buildSessionData (endedAt env) start s;
                     stopped = cleared @ [StopRecording, StopCamera,
                                          EndSession (sessionId s) sessionData]
                 in if \<not> persisted env then (s, stopped @ endFailed)
                    else if \<not> reported env
                    then (s, stopped @ SessionComplete sessionData # endFailed)
                    else (s\<lparr>isSessionActive := False, sessionId := None,
                            candidateName := [], sessionTimer := 0\<rparr>,
                          stopped @ [SessionComplete sessionData]))))"

subsection \<open>addEvent (lines 118-140)\<close>

text \<open>\<^verbatim>\<open>lastEventTimeRef.current[event.type] || 0\<close>: a missing entry reads as 0.\<close>

definition lastTime :: "dashboard \<Rightarrow> event_type \<Rightarrow> int" where
  "lastTime s ty = (case lastEventTimeRef s ty of None \<Rightarrow> 0 | Some t \<Rightarrow> t)"

text \<open>
  The stamped event. The clock is read three times within the call (lines 121, 132, 133);
  the readings are taken to be the same millisecond \<open>now\<close>. Without a start time,
  \<^verbatim>\<open>sessionTime\<close> is not a number (\<open>None\<close>).
\<close>

definition stamp :: "int \<Rightarrow> dashboard \<Rightarrow> candidate \<Rightarrow> event" where
  "stamp now s ev =
     \<lparr>etype = etype ev, level = level ev, message = message ev, payload = payload ev,
      timestamp = now,
      sessionTime = (case sessionStartTime s of None \<Rightarrow> None | Some start \<Rightarrow> Some (now - start))\<rparr>"

definition addEvent :: "int \<Rightarrow> candidate \<Rightarrow> dashboard \<Rightarrow> dashboard \<times> effect list" where
  "addEvent now ev s =
     (if now - lastTime s (etype ev) < 3000 then (s, [])
      else
        (let s = s\<lparr>lastEventTimeRef := (lastEventTimeRef s)(etype ev \<mapsto> now)\<rparr>;
             newEvent = stamp now s ev;
             s = s\<lparr>events := events s @ [newEvent]\<rparr>
         in (s, case sessionId s of
                  None \<Rightarrow> []
                | Some sid \<Rightarrow> if sid = [] then [] else [LogEvent sid newEvent])))"

subsection \<open>The two effects (lines 142-189)\<close>

definition focusLostEvent :: "focus_data \<Rightarrow> candidate" where
  "focusLostEvent focusData =
     \<lparr>etype = FOCUS_LOST, level = warning,
      message = ''Focus lost for '' @ showInt (roundMs (focusLostDuration focusData)) @ ''s'',
      payload = FocusPayload focusData\<rparr>"

definition noFaceEvent :: "focus_data \<Rightarrow> candidate" where
  "noFaceEvent focusData =
     \<lparr>etype = NO_FACE, level = danger,
      message = ''No face detected for '' @ showInt (roundMs (noFaceDuration focusData)) @ ''s'',
      payload = FocusPayload focusData\<rparr>"

definition multipleFacesEvent :: "focus_data \<Rightarrow> candidate" where
  "multipleFacesEvent focusData =
     \<lparr>etype = MULTIPLE_FACES, level = danger,
      message = ''Multiple faces detected in frame'',
      payload = FocusPayload focusData\<rparr>"

definition suspiciousObjectEvent :: "detection \<Rightarrow> candidate" where
  "suspiciousObjectEvent obj =
     \<lparr>etype = SUSPICIOUS_OBJECT, level = danger,
      message = className obj @ '' detected ('' @ showInt (roundPercent (confidence obj))
                @ ''% confidence)'',
      payload = ObjectPayload obj\<rparr>"

text \<open>
  The effect on \<^verbatim>\<open>[focusData, isSessionActive]\<close>, run at clock reading \<open>now\<close> with the
  \<^verbatim>\<open>focusData\<close> of the render.
\<close>

definition focusEffect :: "int \<Rightarrow> focus_data \<Rightarrow> dashboard \<Rightarrow> dashboard \<times> effect list" where
  "focusEffect now focusData s =
     (if isSessionActive s then
        (let (s, out1) = (if focusLostDuration focusData > 5000
                          then addEvent now (focusLostEvent focusData) s else (s, []));
             (s, out2) = (if noFaceDuration focusData > 10000
                          then addEvent now (noFaceEvent focusData) s else (s, []));
             (s, out3) = (if multipleFaces focusData
                          then addEvent now (multipleFacesEvent focusData) s else (s, []))
         in (s, out1 @ out2 @ out3))
      else (s, []))"

text \<open>The object filter of line 176.\<close>

definition suspiciousObjects :: "detection list \<Rightarrow> detection list" where
  "suspiciousObjects detectedObjects =
     filter (\<lambda>obj. className obj \<noteq> ''person'') detectedObjects"

text \<open>\<^verbatim>\<open>suspiciousObjects.forEach(obj => addEvent(...))\<close>\<close>

fun forEachAddEvent :: "int \<Rightarrow> detection list \<Rightarrow> dashboard \<Rightarrow> dashboard \<times> effect list" where
  "forEachAddEvent now [] s = (s, [])"
| "forEachAddEvent now (obj # objs) s =
     (let (s, out1) = addEvent now (suspiciousObjectEvent obj) s;
          (s, out2) = forEachAddEvent now objs s
      in (s, out1 @ out2))"

definition objectEffect :: "int \<Rightarrow> detection list \<Rightarrow> dashboard \<Rightarrow> dashboard \<times> effect list" where
  "objectEffect now detectedObjects s =
     (if isSessionActive s then
        (let suspicious = suspiciousObjects detectedObjects
         in if length suspicious > 0 then forEachAddEvent now suspicious s else (s, []))
      else (s, []))"

subsection \<open>Runs of the component\<close>

text \<open>
  Everything that changes the component's state: typing into the name field (line 218),
  the two buttons, the two effects with the data of the render, and the timer of line 69.
\<close>

datatype action =
    Typed string
  | Start start_env
  | Stop end_env
  | FocusChanged int focus_data
  | ObjectsChanged int "detection list"
  | TimerTick

fun step :: "dashboard \<Rightarrow> action \<Rightarrow> dashboard" where
  "step s (Typed name) = s\<lparr>candidateName := name\<rparr>"
| "step s (Start env) = fst (startSession env s)"
| "step s (Stop env) = fst (endSession env s)"
| "step s (FocusChanged now focusData) = fst (focusEffect now focusData s)"
| "step s (ObjectsChanged now detectedObjects) = fst (objectEffect now detectedObjects s)"
| "step s TimerTick = s\<lparr>sessionTimer := sessionTimer s + 1\<rparr>"

definition run :: "action list \<Rightarrow> dashboard" where
  "run acts = foldl step mountDashboard acts"

subsection \<open>The sampling tick\<close>



section \<open>Notions used to state the properties\<close>

text \<open>The sum of the penalties that apply to a focus record, as the specification lists them.\<close>

definition penalties :: "focus_data \<Rightarrow> int" where
  "penalties d =
     (if \<not> faceDetected d then 50 else 0) + (if \<not> lookingAtScreen d then 20 else 0) +
     (if multipleFaces d then 30 else 0) + (if eyeClosure d then 15 else 0) +
     (if focusLostDuration d > 5000 then 20 else 0) +
     (if noFaceDuration d > 10000 then 40 else 0)"

text \<open>A candidate is accepted when the call of \<^verbatim>\<open>addEvent\<close> makes the log grow.\<close>

definition accepted :: "int \<Rightarrow> candidate \<Rightarrow> dashboard \<Rightarrow> bool" where
  "accepted now ev s = (events (fst (addEvent now ev s)) \<noteq> events s)"

text \<open>The class names carried by the logged SUSPICIOUS_OBJECT events.\<close>

definition loggedClasses :: "event list \<Rightarrow> string set" where
  "loggedClasses evs =
     {c. \<exists>e obj. e \<in> set evs \<and> etype e = SUSPICIOUS_OBJECT \<and>
                 payload e = ObjectPayload obj \<and> className obj = c}"

section \<open>Concrete inputs\<close>

text \<open>Gaze estimators, frames, collaborators and runs at which the model is evaluated.\<close>

definition gazeOnScreen :: "unit \<Rightarrow> bool \<times> bool" where
  "gazeOnScreen landmarks = (True, False)"

definition gazeDrowsy :: "unit \<Rightarrow> bool \<times> bool" where
  "gazeDrowsy landmarks = (True, True)"

definition twoFaces :: "unit frame" where
  "twoFaces =
     \<lparr>canvasSet = True, videoSet = True, captured = initialFocusData,
      frameTime = 1000, faces = Some [(), ()]\<rparr>"

definition crowded :: hook where
  "crowded = onResults gazeDrowsy (mountHook 0 0) twoFaces"

definition nobody :: "unit frame" where
  "nobody =
     \<lparr>canvasSet = True, videoSet = True, captured = initialFocusData,
      frameTime = 2000, faces = Some []\<rparr>"


definition staleRefs :: focus_refs where
  "staleRefs = \<lparr>lastFocusTime = 1000, lastFaceTime = 4000\<rparr>"

definition awayOneSecond :: focus_data where
  "awayOneSecond =
     \<lparr>faceDetected = False, lookingAtScreen = False, focusScore = 30,
      focusLostDuration = 4000, noFaceDuration = 1000, multipleFaces = False,
      eyeClosure = False\<rparr>"

definition absent :: focus_data where
  "absent =
     \<lparr>faceDetected = False, lookingAtScreen = False, focusScore = 0,
      focusLostDuration = 11000, noFaceDuration = 11000, multipleFaces = False,
      eyeClosure = False\<rparr>"

definition annEnv :: start_env where
  "annEnv =
     \<lparr>cameraStarts = True, recordingStarts = True, created = Some ''s1'',
      requestTime = 5000, startedAt = 5000, detectionHandle = 1, timerHandle = 2\<rparr>"

definition bobEnv :: start_env where
  "bobEnv =
     \<lparr>cameraStarts = True, recordingStarts = True, created = Some ''s2'',
      requestTime = 21500, startedAt = 21500, detectionHandle = 3, timerHandle = 4\<rparr>"

definition epochEnv :: start_env where
  "epochEnv =
     \<lparr>cameraStarts = True, recordingStarts = True, created = Some ''s0'',
      requestTime = 0, startedAt = 0, detectionHandle = 1, timerHandle = 2\<rparr>"

definition noRecorder :: start_env where
  "noRecorder = annEnv\<lparr>recordingStarts := False\<rparr>"

definition stopEnv :: end_env where
  "stopEnv =
     \<lparr>recordingStops = True, cameraStops = True, endedAt = 21000,
      persisted = True, reported = True\<rparr>"

definition book :: detection where
  "book = \<lparr>className = ''book'', confidence = 87 / 100\<rparr>"

definition person :: detection where
  "person = \<lparr>className = ''person'', confidence = 99 / 100\<rparr>"

definition unnamed :: detection where
  "unnamed = \<lparr>className = [], confidence = 1 / 2\<rparr>"

definition annStarted :: "action list" where
  "annStarted = [Typed ''Ann'', Start annEnv]"

definition annAbsent :: "action list" where
  "annAbsent = annStarted @ [FocusChanged 20000 absent]"

definition firstSession :: "action list" where
  "firstSession = annAbsent @ [Stop stopEnv]"

definition bookSeen :: "action list" where
  "bookSeen = annStarted @ [ObjectsChanged 9000 [book, person]]"

definition unnamedSeen :: "action list" where
  "unnamedSeen = annStarted @ [ObjectsChanged 9000 [unnamed, person]]"

definition secondSession :: "action list" where
  "secondSession = firstSession @ [Typed ''Bob'', Start bobEnv]"




section \<open>Properties of the focus hook\<close>

lemma calculateFocusScore_penalties: "calculateFocusScore d = max 0 (100 - penalties d)"
  by (simp add: calculateFocusScore_def penalties_def Let_def)

lemma calculateFocusScore_range: "0 \<le> calculateFocusScore d \<and> calculateFocusScore d \<le> 100"
  by (simp add: calculateFocusScore_def Let_def)

lemma calculateFocusScore_focusScore_update [simp]:
  "calculateFocusScore (d\<lparr>focusScore := x\<rparr>) = calculateFocusScore d"
  by (simp add: calculateFocusScore_def)


lemma onFaceResults_score:
  assumes "onFaceResults g c v d r t m = Some (d', r')"
  shows "focusScore d' = calculateFocusScore d'"
proof -
  from assms obtain e where "d' = e\<lparr>focusScore := calculateFocusScore e\<rparr>"
    unfolding onFaceResults_def Let_def
    by (simp split: if_splits prod.splits) blast
  then show ?thesis by simp
qed

lemma onFaceResults_ran: "onFaceResults g c v d r t m \<noteq> None \<longleftrightarrow> c \<and> v"
  by (simp add: onFaceResults_def Let_def split: prod.splits)

text \<open>
  What the handler emits for a frame without a face: of the copied record it overwrites
  \<^verbatim>\<open>faceDetected\<close>, \<^verbatim>\<open>lookingAtScreen\<close>, the two durations and the score, and nothing else.
\<close>

lemma onFaceResults_noFace:
  assumes "faceCount m = 0"
  shows "onFaceResults g True True d r t m =
         Some (d\<lparr>faceDetected := False, lookingAtScreen := False,
                 noFaceDuration := t - lastFaceTime r,
                 focusLostDuration := t - lastFocusTime r,
                 focusScore := calculateFocusScore
                   (d\<lparr>faceDetected := False, lookingAtScreen := False,
                      noFaceDuration := t - lastFaceTime r,
                      focusLostDuration := t - lastFocusTime r\<rparr>)\<rparr>, r)"
proof (cases m)
  case None
  then show ?thesis by (simp add: onFaceResults_def)
next
  case (Some fs)
  with assms have "fs = []" by (simp add: faceCount_def)
  with Some show ?thesis by (simp add: onFaceResults_def)
qed

text \<open>A frame with a face marks it detected, so an emitted record without a face
  comes from the other branch.\<close>

lemma onFaceResults_face:
  assumes "0 < faceCount m" and "onFaceResults g c v d r t m = Some (d', r')"
  shows "faceDetected d'"
proof -
  from assms(1) obtain x xs where m: "m = Some (x # xs)"
    by (cases m; cases "the m") (auto simp: faceCount_def)
  obtain a b where g: "g x = (a, b)" by (cases "g x")
  from assms(2) show ?thesis
    by (cases a) (auto simp: onFaceResults_def m g Let_def split: if_splits)
qed

lemma deliver_score:
  "focusState (deliver g h f) = focusState h \<or>
   focusScore (focusState (deliver g h f)) = calculateFocusScore (focusState (deliver g h f))"
  by (auto simp: deliver_def onFaceResults_score split: option.splits)

lemma deliver_range:
  assumes "0 \<le> focusScore (focusState h) \<and> focusScore (focusState h) \<le> 100"
  shows "0 \<le> focusScore (focusState (deliver g h f)) \<and>
         focusScore (focusState (deliver g h f)) \<le> 100"
  using deliver_score [of g h f] assms calculateFocusScore_range [of "focusState (deliver g h f)"]
  by auto

lemma frames_range:
  assumes "0 \<le> focusScore (focusState h) \<and> focusScore (focusState h) \<le> 100"
  shows "0 \<le> focusScore (focusState (foldl (deliver g) h fs)) \<and>
         focusScore (focusState (foldl (deliver g) h fs)) \<le> 100"
  using assms
proof (induction fs arbitrary: h)
  case Nil
  then show ?case by simp
next
  case (Cons f fs)
  from Cons.IH [OF deliver_range [OF Cons.prems, of g f]] show ?case by simp
qed

lemma awayOneSecond_emitted:
  "onFaceResults gazeOnScreen True True initialFocusData staleRefs 5000 (Some [])
   = Some (awayOneSecond, staleRefs)"
  by (simp add: onFaceResults_def initialFocusData_def calculateFocusScore_def
        awayOneSecond_def staleRefs_def)

lemma onResults_noFace:
  assumes "canvasSet f" "videoSet f" "faceCount (faces f) = 0"
  shows "onResults g h f =
    \<lparr>focusState =
       initialFocusData
         \<lparr>faceDetected := False, lookingAtScreen := False,
          noFaceDuration := frameTime f - lastFaceTime (refs h),
          focusLostDuration := frameTime f - lastFocusTime (refs h),
          focusScore := calculateFocusScore
            (initialFocusData
               \<lparr>faceDetected := False, lookingAtScreen := False,
                noFaceDuration := frameTime f - lastFaceTime (refs h),
                focusLostDuration := frameTime f - lastFocusTime (refs h)\<rparr>)\<rparr>,
     refs = refs h\<rparr>"
  using assms by (simp add: onResults_def deliver_def onFaceResults_noFace)

text \<open>
  C1: whenever the registered handler processes a frame without a face, the record it
  emits has \<^verbatim>\<open>faceDetected\<close>, \<^verbatim>\<open>multipleFaces\<close>, \<^verbatim>\<open>lookingAtScreen\<close> and \<^verbatim>\<open>eyeClosure\<close> all
  false, and the whole result is the same whatever record the state cell held before the
  frame. (The branch itself resets only \<^verbatim>\<open>faceDetected\<close> and \<^verbatim>\<open>lookingAtScreen\<close>; the other
  two flags are false because the registered closure copies the initial record.)
\<close>

theorem zero_face_frame_flags:
  assumes "canvasSet f" "videoSet f" "faceCount (faces f) = 0"
  shows "\<not> faceDetected (focusState (onResults g h f)) \<and>
         \<not> multipleFaces (focusState (onResults g h f)) \<and>
         \<not> lookingAtScreen (focusState (onResults g h f)) \<and>
         \<not> eyeClosure (focusState (onResults g h f)) \<and>
         onResults g (h\<lparr>focusState := d\<rparr>) f = onResults g h f"
  by (simp add: onResults_noFace [OF assms] initialFocusData_def)

theorem zero_face_frame_flags_witness:
  "faceDetected (focusState crowded) \<and> multipleFaces (focusState crowded) \<and>
   lookingAtScreen (focusState crowded) \<and> eyeClosure (focusState crowded) \<and>
   canvasSet nobody \<and> videoSet nobody \<and> faceCount (faces nobody) = 0 \<and>
   \<not> faceDetected (focusState (onResults gazeDrowsy crowded nobody)) \<and>
   \<not> multipleFaces (focusState (onResults gazeDrowsy crowded nobody)) \<and>
   \<not> lookingAtScreen (focusState (onResults gazeDrowsy crowded nobody)) \<and>
   \<not> eyeClosure (focusState (onResults gazeDrowsy crowded nobody))"
proof -
  have before: "faceDetected (focusState crowded) \<and> multipleFaces (focusState crowded) \<and>
      lookingAtScreen (focusState crowded) \<and> eyeClosure (focusState crowded)"
    by (simp add: crowded_def onResults_def twoFaces_def deliver_def onFaceResults_def
          mountHook_def gazeDrowsy_def)
  have fr: "canvasSet nobody" "videoSet nobody" "faceCount (faces nobody) = 0"
    by (simp_all add: nobody_def faceCount_def)
  from zero_face_frame_flags [OF fr, of gazeDrowsy crowded] before fr show ?thesis
    by simp
qed

text \<open>
  C2 as stated fails: with the subject last on screen at 1000, a face last seen at 4000 and
  a frame without a face at 5000, the handler emits \<^verbatim>\<open>noFaceDuration\<close> 1000 and
  \<^verbatim>\<open>focusLostDuration\<close> 4000, which is not the time since the face was last seen.
\<close>

theorem focus_lost_since_last_focus:
  "onFaceResults gazeOnScreen True True initialFocusData staleRefs 5000 (Some [])
     = Some (awayOneSecond, staleRefs) \<and>
   \<not> faceDetected awayOneSecond \<and>
   noFaceDuration awayOneSecond = 5000 - lastFaceTime staleRefs \<and>
   focusLostDuration awayOneSecond \<noteq> 5000 - lastFaceTime staleRefs"
  using awayOneSecond_emitted by (simp add: awayOneSecond_def staleRefs_def)

text \<open>
  C2, amended: whenever the handler emits a record with \<^verbatim>\<open>faceDetected=false\<close>, its
  \<^verbatim>\<open>noFaceDuration\<close> is the time since a face was last seen, its \<^verbatim>\<open>focusLostDuration\<close> is
  the time since the subject was last looking at the screen, and both timestamps are left
  as they were.
\<close>

theorem no_face_durations:
  assumes "onFaceResults g c v d r now m = Some (d', r')" and "\<not> faceDetected d'"
  shows "noFaceDuration d' = now - lastFaceTime r \<and>
         focusLostDuration d' = now - lastFocusTime r \<and> r' = r"
proof -
  from assms(1) have cv: "c \<and> v" using onFaceResults_ran [of g c v d r now m] by simp
  have "faceCount m = 0"
  proof (rule ccontr)
    assume "faceCount m \<noteq> 0"
    then have "faceDetected d'" using onFaceResults_face [OF _ assms(1)] by simp
    with assms(2) show False by simp
  qed
  from onFaceResults_noFace [OF this, of g d r now] assms(1) cv show ?thesis
    by auto
qed

theorem no_face_durations_witness:
  "onFaceResults gazeOnScreen True True initialFocusData staleRefs 5000 (Some [])
     = Some (awayOneSecond, staleRefs) \<and>
   \<not> faceDetected awayOneSecond \<and>
   noFaceDuration awayOneSecond = 5000 - lastFaceTime staleRefs \<and>
   focusLostDuration awayOneSecond = 5000 - lastFocusTime staleRefs"
proof -
  have nf: "\<not> faceDetected awayOneSecond" by (simp add: awayOneSecond_def)
  from no_face_durations [OF awayOneSecond_emitted nf] awayOneSecond_emitted nf
  show ?thesis by simp
qed

text \<open>
  C3: the focus score of every record is \<open>max 0 (100 - penalties)\<close> with the six penalties
  of the specification, so it lies between 0 and 100; every record the handler emits carries
  the score of its own fields, and the score held by the hook lies between 0 and 100 after
  any sequence of frames.
\<close>

theorem focus_score_penalties:
  "calculateFocusScore d = max 0 (100 - penalties d) \<and>
   0 \<le> calculateFocusScore d \<and> calculateFocusScore d \<le> 100 \<and>
   (onFaceResults g c v d r now m = Some (d', r') \<longrightarrow>
      focusScore d' = max 0 (100 - penalties d')) \<and>
   0 \<le> focusScore (focusState (foldl (deliver g) (mountHook t1 t2) fs)) \<and>
   focusScore (focusState (foldl (deliver g) (mountHook t1 t2) fs)) \<le> 100"
proof -
  have "0 \<le> focusScore (focusState (mountHook t1 t2)) \<and>
        focusScore (focusState (mountHook t1 t2)) \<le> 100"
    by (simp add: mountHook_def initialFocusData_def)
  from frames_range [OF this, of g fs] show ?thesis
    using calculateFocusScore_penalties calculateFocusScore_range onFaceResults_score
    by metis
qed

theorem focus_score_penalties_witness:
  "onFaceResults gazeOnScreen True True initialFocusData staleRefs 5000 (Some [])
     = Some (awayOneSecond, staleRefs) \<and>
   focusScore awayOneSecond = max 0 (100 - penalties awayOneSecond) \<and>
   penalties awayOneSecond = 70"
  using focus_score_penalties [of initialFocusData gazeOnScreen True True staleRefs 5000
          "Some []" awayOneSecond staleRefs 0 0 "[]"]
        awayOneSecond_emitted
  by (simp add: penalties_def awayOneSecond_def)

section \<open>Properties of the session controller\<close>

subsection \<open>Evaluation of concrete runs\<close>

lemma roundPercent_samples:
  "roundPercent (87 / 100) = 87" "roundPercent (1 / 2) = 50" "roundPercent (285 / 1000) = 28"
  by code_simp+

lemmas controller_eval =
  run_def startSession_def endSession_def focusEffect_def objectEffect_def addEvent_def
  lastTime_def stamp_def trim_def isWhiteSpace_def mountDashboard_def
  focusLostEvent_def noFaceEvent_def multipleFacesEvent_def suspiciousObjectEvent_def
  showInt_def showNat.simps digit_def roundMs_def suspiciousObjects_def
  buildSessionData_def ofType_def Let_def roundPercent_samples

lemmas scenario_defs =
  annStarted_def annAbsent_def firstSession_def secondSession_def bookSeen_def
  unnamedSeen_def annEnv_def bobEnv_def epochEnv_def
  noRecorder_def stopEnv_def absent_def book_def person_def unnamed_def

subsection \<open>The debouncer\<close>

lemma stamp_etype [simp]: "etype (stamp now s ev) = etype ev"
  by (simp add: stamp_def)

lemma event_types [simp]:
  "etype (focusLostEvent d) = FOCUS_LOST" "etype (noFaceEvent d) = NO_FACE"
  "etype (multipleFacesEvent d) = MULTIPLE_FACES"
  "etype (suspiciousObjectEvent obj) = SUSPICIOUS_OBJECT"
  by (simp_all add: focusLostEvent_def noFaceEvent_def multipleFacesEvent_def
        suspiciousObjectEvent_def)

lemma addEvent_dropped:
  "now - lastTime s (etype ev) < 3000 \<Longrightarrow> addEvent now ev s = (s, [])"
  by (simp add: addEvent_def)

lemma addEvent_kept:
  "3000 \<le> now - lastTime s (etype ev) \<Longrightarrow>
   fst (addEvent now ev s) =
     s\<lparr>lastEventTimeRef := (lastEventTimeRef s)(etype ev \<mapsto> now),
       events := events s @ [stamp now s ev]\<rparr>"
  by (simp add: addEvent_def Let_def stamp_def)

lemma addEvent_active [simp]:
  "isSessionActive (fst (addEvent now ev s)) = isSessionActive s"
  by (simp add: addEvent_def Let_def)

lemma addEvent_ofType:
  "ofType ty (events (fst (addEvent now ev s))) =
     ofType ty (events s) @
       (if ty = etype ev \<and> 3000 \<le> now - lastTime s (etype ev) then [stamp now s ev] else [])"
  by (auto simp: addEvent_def Let_def ofType_def stamp_def)

lemma addEvent_lastTime:
  "lastTime (fst (addEvent now ev s)) ty =
     (if ty = etype ev \<and> 3000 \<le> now - lastTime s (etype ev) then now else lastTime s ty)"
  by (simp add: addEvent_def Let_def lastTime_def)

lemma accepted_iff: "accepted now ev s \<longleftrightarrow> 3000 \<le> now - lastTime s (etype ev)"
proof (cases "3000 \<le> now - lastTime s (etype ev)")
  case True
  then show ?thesis by (simp add: accepted_def addEvent_kept)
next
  case False
  then show ?thesis by (simp add: accepted_def addEvent_dropped)
qed

text \<open>
  C4 as stated fails on the words "or no event of that type was accepted yet in the
  session". The debounce map belongs to the component and \<^verbatim>\<open>startSession\<close> does not clear
  it: a NO_FACE event accepted at 20000 in one session makes the component drop the NO_FACE
  candidate at 22000 in the next session, whose log is still empty. And a type without an
  entry is read as last accepted at time 0: in a session with an empty map, a candidate at
  clock reading 1000 is dropped.
\<close>

theorem debounce_map_outlives_session:
  "isSessionActive (run secondSession) \<and>
   events (run secondSession) = [] \<and>
   lastEventTimeRef (run secondSession) NO_FACE = Some 20000 \<and>
   \<not> accepted 22000 (noFaceEvent absent) (run secondSession) \<and>
   isSessionActive (run [Typed ''Ann'', Start epochEnv]) \<and>
   lastEventTimeRef (run [Typed ''Ann'', Start epochEnv]) NO_FACE = None \<and>
   \<not> accepted 1000 (noFaceEvent absent) (run [Typed ''Ann'', Start epochEnv])"
  by (simp add: controller_eval scenario_defs accepted_def)

text \<open>
  C4, amended: a candidate at time \<open>now\<close> is accepted exactly when \<open>now\<close> is at least 3000
  after the entry of its type in the component's debounce map, a missing entry counting as
  time 0. An accepted candidate is appended to the log, stamped, and its time becomes the
  entry of its type; a dropped one changes nothing and causes no call. So after a candidate
  accepted at \<open>t\<close>, a candidate of the same type up to \<open>t + 2999\<close> is dropped, and one of the
  same type at \<open>t + 3000\<close> or later is accepted.
\<close>

theorem debounce_accepts:
  "(accepted now ev s \<longleftrightarrow> 3000 \<le> now - lastTime s (etype ev)) \<and>
   (accepted now ev s \<longrightarrow>
      events (fst (addEvent now ev s)) = events s @ [stamp now s ev] \<and>
      lastEventTimeRef (fst (addEvent now ev s)) = (lastEventTimeRef s)(etype ev \<mapsto> now)) \<and>
   (\<not> accepted now ev s \<longrightarrow> addEvent now ev s = (s, [])) \<and>
   (accepted t ev s \<and> etype ev2 = etype ev \<and> etype ev3 = etype ev \<and>
    t \<le> t2 \<and> t2 \<le> t + 2999 \<and> t + 3000 \<le> t3 \<longrightarrow>
      addEvent t2 ev2 (fst (addEvent t ev s)) = (fst (addEvent t ev s), []) \<and>
      accepted t3 ev3 (fst (addEvent t2 ev2 (fst (addEvent t ev s)))))"
proof -
  have seq: "addEvent t2 ev2 (fst (addEvent t ev s)) = (fst (addEvent t ev s), []) \<and>
      accepted t3 ev3 (fst (addEvent t2 ev2 (fst (addEvent t ev s))))"
    if a: "accepted t ev s" and e2: "etype ev2 = etype ev" and e3: "etype ev3 = etype ev"
      and t2: "t \<le> t2" "t2 \<le> t + 2999" and t3: "t + 3000 \<le> t3"
  proof -
    from a have ok: "3000 \<le> t - lastTime s (etype ev)" by (simp add: accepted_iff)
    have lt: "lastTime (fst (addEvent t ev s)) (etype ev) = t"
      using ok by (simp add: addEvent_lastTime)
    have d: "addEvent t2 ev2 (fst (addEvent t ev s)) = (fst (addEvent t ev s), [])"
      using t2 by (intro addEvent_dropped) (simp add: e2 lt)
    have "accepted t3 ev3 (fst (addEvent t ev s))"
      using t3 by (simp add: accepted_iff e3 lt)
    with d show ?thesis by simp
  qed
  show ?thesis
    using accepted_iff [of now ev s] seq
    by (auto simp: addEvent_kept addEvent_dropped)
qed

theorem debounce_accepts_witness:
  "accepted 20000 (noFaceEvent absent) (run annStarted) \<and>
   addEvent 22999 (noFaceEvent absent) (fst (addEvent 20000 (noFaceEvent absent) (run annStarted)))
     = (fst (addEvent 20000 (noFaceEvent absent) (run annStarted)), []) \<and>
   accepted 23000 (noFaceEvent absent)
     (fst (addEvent 22999 (noFaceEvent absent)
        (fst (addEvent 20000 (noFaceEvent absent) (run annStarted)))))"
proof -
  have a: "accepted 20000 (noFaceEvent absent) (run annStarted)"
    by (simp add: controller_eval scenario_defs accepted_def)
  from debounce_accepts [where t = 20000 and ev = "noFaceEvent absent" and s = "run annStarted"
      and ?ev2.0 = "noFaceEvent absent" and ?ev3.0 = "noFaceEvent absent" and ?t2.0 = 22999
      and ?t3.0 = 23000 and now = 20000] a
  show ?thesis by auto
qed

subsection \<open>The object filter\<close>

text \<open>
  C5: the object filter returns a subsequence of its input that holds exactly the elements
  whose class name is not "person", each as often as the input has it and in the input's
  order (the filter of a concatenation is the concatenation of the filters); filtering
  twice is filtering once, and a sequence without a "person" is returned unchanged.
\<close>

theorem object_filter:
  "subseq (suspiciousObjects ds) ds \<and>
   (obj \<in> set (suspiciousObjects ds) \<longleftrightarrow> obj \<in> set ds \<and> className obj \<noteq> ''person'') \<and>
   count_list (suspiciousObjects ds) obj =
     (if className obj = ''person'' then 0 else count_list ds obj) \<and>
   suspiciousObjects (xs @ ys) = suspiciousObjects xs @ suspiciousObjects ys \<and>
   suspiciousObjects (suspiciousObjects ds) = suspiciousObjects ds \<and>
   ((\<forall>obj \<in> set ds. className obj \<noteq> ''person'') \<longrightarrow> suspiciousObjects ds = ds)"
proof -
  have c: "count_list (suspiciousObjects ds) obj =
     (if className obj = ''person'' then 0 else count_list ds obj)"
    unfolding suspiciousObjects_def by (induction ds) auto
  show ?thesis
    using c by (auto simp: suspiciousObjects_def)
qed

theorem object_filter_witness:
  "className book \<noteq> ''person'' \<and> className unnamed \<noteq> ''person'' \<and>
   suspiciousObjects [book, unnamed, book] = [book, unnamed, book] \<and>
   count_list (suspiciousObjects [book, unnamed, book]) book = 2"
  using object_filter [of "[book, unnamed, book]" book]
  by (simp add: book_def unnamed_def)

subsection \<open>Starting a session\<close>

text \<open>
  C6: when the candidate name is empty after trimming, \<^verbatim>\<open>startSession\<close> leaves the whole
  component state as it was (so an idle controller stays idle and no session is recorded)
  and its only call is the alert that asks for a name: camera, recorder and session
  service are not touched.
\<close>

theorem empty_name_rejected:
  assumes "trim (candidateName s) = []"
  shows "startSession env s = (s, [Alert ''Please enter candidate name''])"
  using assms by (simp add: startSession_def)

theorem empty_name_rejected_witness:
  "trim (candidateName (run [Typed '' '' ])) = [] \<and>
   \<not> isSessionActive (run [Typed '' '']) \<and>
   startSession annEnv (run [Typed '' ''])
     = (run [Typed '' ''], [Alert ''Please enter candidate name''])"
proof -
  have t: "trim (candidateName (run [Typed '' '' ])) = []"
    by (simp add: controller_eval)
  from empty_name_rejected [OF t, of annEnv] t show ?thesis
    by (simp add: run_def mountDashboard_def)
qed

text \<open>
  C7: when the name is not empty and the camera, the recorder or the creation of the
  session fails, \<^verbatim>\<open>startSession\<close> leaves the whole component state as it was (the session
  is not marked active, no interval handle is stored), schedules no interval, and reports
  the failure: its calls are the collaborators up to the failing one, followed by the
  console message and the alert of the \<^verbatim>\<open>catch\<close> block.
\<close>

theorem start_failure_stays_idle:
  assumes "trim (candidateName s) \<noteq> []"
    and "\<not> cameraStarts env \<or> \<not> recordingStarts env \<or> created env = None"
  shows "fst (startSession env s) = s \<and>
         snd (startSession env s) \<in>
           {StartCamera # startFailed,
            StartCamera # StartRecording # startFailed,
            StartCamera # StartRecording #
              CreateSession (trim (candidateName s)) (requestTime env) # startFailed}"
  using assms by (auto simp: startSession_def split: option.splits)

theorem start_failure_stays_idle_witness:
  "trim (candidateName (run [Typed ''Ann''])) \<noteq> [] \<and>
   \<not> recordingStarts noRecorder \<and>
   \<not> isSessionActive (fst (startSession noRecorder (run [Typed ''Ann'']))) \<and>
   intervalRef (fst (startSession noRecorder (run [Typed ''Ann'']))) = None \<and>
   snd (startSession noRecorder (run [Typed ''Ann''])) =
     [StartCamera, StartRecording, ConsoleError ''Error starting session:'',
      Alert ''Failed to start session. Check console for errors.'']"
proof -
  have t: "trim (candidateName (run [Typed ''Ann''])) \<noteq> []"
    by (simp add: controller_eval)
  have r: "\<not> recordingStarts noRecorder" by (simp add: noRecorder_def)
  from r have d: "\<not> cameraStarts noRecorder \<or> \<not> recordingStarts noRecorder \<or>
                  created noRecorder = None" by simp
  from start_failure_stays_idle [OF t d] t r show ?thesis
    by (simp add: controller_eval startFailed_def noRecorder_def annEnv_def)
qed

subsection \<open>The focus effect and the sampling tick\<close>

lemma focusEffect_fst:
  "fst (focusEffect now d s) =
     (if isSessionActive s then
        (let s1 = (if focusLostDuration d > 5000
                   then fst (addEvent now (focusLostEvent d) s) else s);
             s2 = (if noFaceDuration d > 10000
                   then fst (addEvent now (noFaceEvent d) s1) else s1)
         in if multipleFaces d then fst (addEvent now (multipleFacesEvent d) s2) else s2)
      else s)"
  by (simp add: focusEffect_def Let_def case_prod_beta)

lemma focusEffect_active [simp]:
  "isSessionActive (fst (focusEffect now d s)) = isSessionActive s"
  by (simp add: focusEffect_fst Let_def)




text \<open>
  What \<^verbatim>\<open>lastFaceTime\<close> holds: the time of mounting until a face is seen, then the time
  of the last frame with a face. Starting a session does not touch it.
\<close>

lemma lastFaceTime_mount: "lastFaceTime (refs (mountHook t1 t2)) = t2"
  by (simp add: mountHook_def)





subsection \<open>The final report\<close>

lemma length_ofType: "length (ofType ty evs) = count_list (map etype evs) ty"
  unfolding ofType_def by (induction evs) auto

lemma foldl_setAdd:
  "set (foldl setAdd acc xs) = set acc \<union> set xs \<and>
   (distinct acc \<longrightarrow> distinct (foldl setAdd acc xs))"
  by (induction xs arbitrary: acc) (auto simp: setAdd_def)

lemma newSet_set: "set (newSet xs) = set xs" and newSet_distinct: "distinct (newSet xs)"
  using foldl_setAdd [of "[]" xs] by (simp_all add: newSet_def)

lemma truthy_set: "set (truthy cs) = {c. Some c \<in> set cs \<and> c \<noteq> []}"
  by (induction cs rule: truthy.induct) auto

lemma dataClass_Some:
  "dataClass e = Some c \<longleftrightarrow> (\<exists>obj. payload e = ObjectPayload obj \<and> className obj = c)"
  by (cases "payload e") (auto simp: dataClass_def)

lemma items_set:
  "set (newSet (truthy (map dataClass (ofType SUSPICIOUS_OBJECT evs)))) = loggedClasses evs - {[]}"
proof -
  have "Some c \<in> set (map dataClass (ofType SUSPICIOUS_OBJECT evs)) \<longleftrightarrow> c \<in> loggedClasses evs"
    for c
  proof
    assume "Some c \<in> set (map dataClass (ofType SUSPICIOUS_OBJECT evs))"
    then obtain e where "e \<in> set evs" "etype e = SUSPICIOUS_OBJECT" "dataClass e = Some c"
      by (auto simp: ofType_def)
    then show "c \<in> loggedClasses evs"
      by (auto simp: loggedClasses_def dataClass_Some)
  next
    assume "c \<in> loggedClasses evs"
    then obtain e where e: "e \<in> set evs" "etype e = SUSPICIOUS_OBJECT" "dataClass e = Some c"
      by (auto simp: loggedClasses_def dataClass_Some)
    then have "e \<in> set (ofType SUSPICIOUS_OBJECT evs)" by (simp add: ofType_def)
    with e(3) show "Some c \<in> set (map dataClass (ofType SUSPICIOUS_OBJECT evs))"
      by (metis image_eqI set_map)
  qed
  then show ?thesis by (auto simp: newSet_set truthy_set)
qed

lemma endSession_done:
  assumes "recordingStops env" "cameraStops env" "persisted env" "reported env"
    and "sessionStartTime s = Some start"
  shows "endSession env s =
    (s\<lparr>isSessionActive := False, sessionId := None, candidateName := [], sessionTimer := 0\<rparr>,
     [ClearInterval (intervalRef s), ClearInterval (timerIntervalRef s), StopRecording,
      StopCamera, EndSession (sessionId s) (buildSessionData (endedAt env) start s),
      SessionComplete (buildSessionData (endedAt env) start s)])"
  using assms by (simp add: endSession_def Let_def)

lemma stopEnv_ok:
  "recordingStops stopEnv" "cameraStops stopEnv" "persisted stopEnv" "reported stopEnv"
  "endedAt stopEnv = 21000"
  by (simp_all add: stopEnv_def)

text \<open>
  C9 as stated fails on the items of the object summary: \<^verbatim>\<open>.filter(Boolean)\<close> drops an
  empty class name. With one logged SUSPICIOUS_OBJECT event whose detection has the empty
  class name, the report counts one detection and lists no item, although the event carries
  one distinct class name.
\<close>

theorem report_items_skip_empty_name:
  "sessionStartTime (run unnamedSeen) = Some 5000 \<and>
   map etype (events (run unnamedSeen)) = [SUSPICIOUS_OBJECT] \<and>
   map dataClass (events (run unnamedSeen)) = [Some []] \<and>
   last (snd (endSession stopEnv (run unnamedSeen)))
     = SessionComplete (buildSessionData 21000 5000 (run unnamedSeen)) \<and>
   totalDetections (objectSummary (buildSessionData 21000 5000 (run unnamedSeen))) = 1 \<and>
   items (objectSummary (buildSessionData 21000 5000 (run unnamedSeen))) = []"
proof -
  have st: "sessionStartTime (run unnamedSeen) = Some 5000"
    by (simp add: controller_eval scenario_defs)
  have ev: "map etype (events (run unnamedSeen)) = [SUSPICIOUS_OBJECT]"
       "map dataClass (events (run unnamedSeen)) = [Some []]"
    by (simp_all add: controller_eval scenario_defs dataClass_def)
  have rep: "totalDetections (objectSummary (buildSessionData 21000 5000 (run unnamedSeen))) = 1"
       "items (objectSummary (buildSessionData 21000 5000 (run unnamedSeen))) = []"
    by (simp_all add: controller_eval scenario_defs dataClass_def newSet_def)
  from endSession_done [OF stopEnv_ok(1-4) st] st ev rep show ?thesis
    by (simp add: stopEnv_ok(5))
qed

text \<open>
  C9, amended: when \<^verbatim>\<open>endSession\<close> runs to its end on a started session, the controller is
  no longer active and the report it hands over has the duration (end time - start time)
  / 1000 in seconds, the four focus counts equal to the numbers of logged FOCUS_LOST,
  NO_FACE, MULTIPLE_FACES and EYE_CLOSURE events, the total equal to the number of logged
  SUSPICIOUS_OBJECT events, and as items, without repetition, the non-empty class names
  of those events.
\<close>

theorem final_report:
  assumes "recordingStops env" "cameraStops env" "persisted env" "reported env"
    and "sessionStartTime s = Some start"
  shows "\<not> isSessionActive (fst (endSession env s)) \<and>
    last (snd (endSession env s)) = SessionComplete (buildSessionData (endedAt env) start s) \<and>
    duration (buildSessionData (endedAt env) start s) = of_int (endedAt env - start) / 1000 \<and>
    focusLostCount (focusSummary (buildSessionData (endedAt env) start s))
      = count_list (map etype (events s)) FOCUS_LOST \<and>
    noFaceCount (focusSummary (buildSessionData (endedAt env) start s))
      = count_list (map etype (events s)) NO_FACE \<and>
    multipleFacesCount (focusSummary (buildSessionData (endedAt env) start s))
      = count_list (map etype (events s)) MULTIPLE_FACES \<and>
    eyeClosureCount (focusSummary (buildSessionData (endedAt env) start s))
      = count_list (map etype (events s)) EYE_CLOSURE \<and>
    totalDetections (objectSummary (buildSessionData (endedAt env) start s))
      = count_list (map etype (events s)) SUSPICIOUS_OBJECT \<and>
    distinct (items (objectSummary (buildSessionData (endedAt env) start s))) \<and>
    set (items (objectSummary (buildSessionData (endedAt env) start s)))
      = loggedClasses (events s) - {[]}"
  by (simp add: endSession_done [OF assms] buildSessionData_def length_ofType
        newSet_distinct items_set)

theorem final_report_witness:
  "recordingStops stopEnv \<and> cameraStops stopEnv \<and> persisted stopEnv \<and> reported stopEnv \<and>
   sessionStartTime (run bookSeen) = Some 5000 \<and>
   map etype (events (run bookSeen)) = [SUSPICIOUS_OBJECT] \<and>
   last (snd (endSession stopEnv (run bookSeen)))
     = SessionComplete (buildSessionData 21000 5000 (run bookSeen)) \<and>
   duration (buildSessionData 21000 5000 (run bookSeen)) = 16 \<and>
   totalDetections (objectSummary (buildSessionData 21000 5000 (run bookSeen))) = 1 \<and>
   noFaceCount (focusSummary (buildSessionData 21000 5000 (run bookSeen))) = 0 \<and>
   set (items (objectSummary (buildSessionData 21000 5000 (run bookSeen))))
     = loggedClasses (events (run bookSeen)) - {[]} \<and>
   items (objectSummary (buildSessionData 21000 5000 (run bookSeen))) = [''book'']"
proof -
  have st: "sessionStartTime (run bookSeen) = Some 5000"
    by (simp add: controller_eval scenario_defs)
  have ev: "map etype (events (run bookSeen)) = [SUSPICIOUS_OBJECT]"
    by (simp add: controller_eval scenario_defs)
  have it: "items (objectSummary (buildSessionData 21000 5000 (run bookSeen))) = [''book'']"
    by (simp add: controller_eval scenario_defs dataClass_def newSet_def setAdd_def)
  from final_report [OF stopEnv_ok(1-4) st] stopEnv_ok st ev it show ?thesis
    by simp
qed

subsection \<open>No EYE_CLOSURE event\<close>

lemma focusEffect_noEye:
  assumes "ofType EYE_CLOSURE (events s) = []"
  shows "ofType EYE_CLOSURE (events (fst (focusEffect now d s))) = []"
  using assms by (simp add: focusEffect_fst Let_def addEvent_ofType)

lemma forEachAddEvent_noEye:
  assumes "ofType EYE_CLOSURE (events s) = []"
  shows "ofType EYE_CLOSURE (events (fst (forEachAddEvent now objs s))) = []"
  using assms
proof (induction objs arbitrary: s)
  case Nil
  then show ?case by simp
next
  case (Cons obj objs)
  have "ofType EYE_CLOSURE (events (fst (addEvent now (suspiciousObjectEvent obj) s))) = []"
    using Cons.prems by (simp add: addEvent_ofType)
  from Cons.IH [OF this] show ?case by (simp add: case_prod_beta)
qed

lemma objectEffect_noEye:
  assumes "ofType EYE_CLOSURE (events s) = []"
  shows "ofType EYE_CLOSURE (events (fst (objectEffect now ds s))) = []"
  using assms by (simp add: objectEffect_def Let_def forEachAddEvent_noEye)

lemma startSession_events:
  "events (fst (startSession env s)) = events s \<or> events (fst (startSession env s)) = []"
  by (simp add: startSession_def split: option.splits)

lemma endSession_events: "events (fst (endSession env s)) = events s"
  by (simp add: endSession_def Let_def split: option.splits)

lemma step_noEye:
  assumes "ofType EYE_CLOSURE (events s) = []"
  shows "ofType EYE_CLOSURE (events (step s a)) = []"
proof (cases a)
  case (Start env)
  with assms startSession_events [of env s] show ?thesis by (auto simp: ofType_def)
qed (use assms in \<open>simp_all add: endSession_events focusEffect_noEye objectEffect_noEye\<close>)

lemma foldl_step_noEye:
  assumes "ofType EYE_CLOSURE (events s) = []"
  shows "ofType EYE_CLOSURE (events (foldl step s acts)) = []"
  using assms by (induction acts arbitrary: s) (simp_all add: step_noEye)

lemma endSession_report:
  assumes "SessionComplete sessionData \<in> set (snd (endSession env s))"
  shows "\<exists>start. sessionData = buildSessionData (endedAt env) start s"
  using assms
  by (auto simp: endSession_def endFailed_def Let_def split: if_splits option.splits)

text \<open>
  C10: whatever the user, the collaborators and the detectors do from the mounting of the
  component on, the event log never holds an event of type EYE_CLOSURE, and every report
  that \<^verbatim>\<open>endSession\<close> hands to \<^verbatim>\<open>onSessionComplete\<close> has \<^verbatim>\<open>eyeClosureCount\<close> 0.
\<close>

theorem no_eye_closure_events:
  "ofType EYE_CLOSURE (events (run acts)) = [] \<and>
   (SessionComplete sessionData \<in> set (snd (endSession env (run acts))) \<longrightarrow>
      eyeClosureCount (focusSummary sessionData) = 0)"
proof -
  have inv: "ofType EYE_CLOSURE (events (run acts)) = []"
    unfolding run_def by (rule foldl_step_noEye) (simp add: mountDashboard_def ofType_def)
  have "eyeClosureCount (focusSummary (buildSessionData t start (run acts))) = 0" for t start
    by (simp add: buildSessionData_def inv)
  with inv endSession_report [of sessionData env "run acts"] show ?thesis by auto
qed

theorem no_eye_closure_events_witness:
  "map etype (events (run annAbsent)) = [FOCUS_LOST, NO_FACE] \<and>
   SessionComplete (buildSessionData 21000 5000 (run annAbsent))
     \<in> set (snd (endSession stopEnv (run annAbsent))) \<and>
   eyeClosureCount (focusSummary (buildSessionData 21000 5000 (run annAbsent))) = 0"
proof -
  have st: "sessionStartTime (run annAbsent) = Some 5000"
    by (simp add: controller_eval scenario_defs)
  have ev: "map etype (events (run annAbsent)) = [FOCUS_LOST, NO_FACE]"
    by (simp add: controller_eval scenario_defs)
  have m: "SessionComplete (buildSessionData 21000 5000 (run annAbsent))
     \<in> set (snd (endSession stopEnv (run annAbsent)))"
    by (simp add: endSession_done [OF stopEnv_ok(1-4) st] stopEnv_ok(5))
  from no_eye_closure_events [of annAbsent "buildSessionData 21000 5000 (run annAbsent)" stopEnv]
    m ev show ?thesis by simp
qed

end
